theory Spec2Isabelle
  imports Main "HOL-Library.AList" "HOL-Library.Sublist" "HOL-Library.Word"
begin

section \<open>Python values\<close>

text \<open>
  A Python \<open>str\<close> is a sequence of Unicode code points, so slicing and \<open>len\<close> count
  code points.  String constants of \<open>bot.py\<close> are given as their code points; the
  comment beside each one transliterates the text.
\<close>

type_synonym ustr = "nat list"

definition ascii :: "string \<Rightarrow> ustr" where
  "ascii s = map of_char s"

text \<open>
  The values \<open>json.loads\<close> can return.  A Python \<open>float\<close> is kept as its IEEE-754
  binary64 bit pattern; no arithmetic is done on it.  A \<open>dict\<close> is an association
  list read with \<open>map_of\<close>.
\<close>

datatype json =
    JNull
  | JBool bool
  | JInt int
  | JFloat "64 word"
  | JStr ustr
  | JArr "json list"
  | JObj "(ustr \<times> json) list"

text \<open>
  Exceptions carry their class and \<open>str(e)\<close>.  \<open>CancelledError\<close> stands for the classes
  that derive from \<open>BaseException\<close> but not from \<open>Exception\<close>, which
  \<open>except Exception\<close> does not catch; \<open>LibraryError\<close> for any other \<open>Exception\<close> a
  collaborator raises.
\<close>

datatype exn_class =
    JSONDecodeError
  | EnvironmentError
  | AttributeError
  | TypeError
  | LibraryError
  | CancelledError

datatype exn = Raised exn_class ustr

fun is_Exception :: "exn \<Rightarrow> bool" where
  "is_Exception (Raised c m) = (c \<noteq> CancelledError)"

fun str_exn :: "exn \<Rightarrow> ustr" where
  "str_exn (Raised c m) = m"

definition bind_exn :: "exn + 'a \<Rightarrow> ('a \<Rightarrow> exn + 'b) \<Rightarrow> exn + 'b" where
  "bind_exn r f = (case r of Inl e \<Rightarrow> Inl e | Inr a \<Rightarrow> f a)"

definition raise_opt :: "exn option \<Rightarrow> exn + unit" where
  "raise_opt r = (case r of None \<Rightarrow> Inr () | Some e \<Rightarrow> Inl e)"

subsection \<open>String methods\<close>

text \<open>\<open>str.isspace\<close> of one character: the code points CPython treats as whitespace.\<close>

definition isspace :: "nat \<Rightarrow> bool" where
  "isspace c =
     (c \<in> set [9, 10, 11, 12, 13, 28, 29, 30, 31, 32, 133, 160, 5760]
      \<or> (8192 \<le> c \<and> c \<le> 8202)
      \<or> c \<in> set [8232, 8233, 8239, 8287, 12288])"

definition lstrip :: "ustr \<Rightarrow> ustr" where
  "lstrip s = dropWhile isspace s"

definition rstrip :: "ustr \<Rightarrow> ustr" where
  "rstrip s = rev (dropWhile isspace (rev s))"

definition strip :: "ustr \<Rightarrow> ustr" where
  "strip s = rstrip (lstrip s)"

definition startswith :: "ustr \<Rightarrow> ustr \<Rightarrow> bool" where
  "startswith s p = prefix p s"

definition endswith :: "ustr \<Rightarrow> ustr \<Rightarrow> bool" where
  "endswith s p = suffix p s"

fun str_join :: "ustr \<Rightarrow> ustr list \<Rightarrow> ustr" where
  "str_join sep [] = []"
| "str_join sep [x] = x"
| "str_join sep (x # y # ys) = x @ sep @ str_join sep (y # ys)"

subsection \<open>Dictionary methods\<close>

definition type_name :: "json \<Rightarrow> ustr" where
  "type_name v =
     (case v of
        JNull \<Rightarrow> ascii ''NoneType''
      | JBool b \<Rightarrow> ascii ''bool''
      | JInt i \<Rightarrow> ascii ''int''
      | JFloat f \<Rightarrow> ascii ''float''
      | JStr s \<Rightarrow> ascii ''str''
      | JArr xs \<Rightarrow> ascii ''list''
      | JObj d \<Rightarrow> ascii ''dict'')"

text \<open>\<open>v.get(k, dflt)\<close>: only a \<open>dict\<close> has the method.\<close>

definition py_get :: "json \<Rightarrow> ustr \<Rightarrow> json \<Rightarrow> exn + json" where
  "py_get v k dflt =
     (case v of
        JObj d \<Rightarrow> Inr (case map_of d k of None \<Rightarrow> dflt | Some x \<Rightarrow> x)
      | _ \<Rightarrow> Inl (Raised AttributeError
                 (ascii [CHR 0x27] @ type_name v @ ascii [CHR 0x27]
                   @ ascii '' object has no attribute '' @ ascii [CHR 0x27] @ ascii ''get''
                   @ ascii [CHR 0x27])))"

text \<open>\<open>v[k] = x\<close> with a string key \<open>k\<close>.\<close>

definition py_setitem :: "json \<Rightarrow> ustr \<Rightarrow> json \<Rightarrow> exn + json" where
  "py_setitem v k x =
     (case v of
        JObj d \<Rightarrow> Inr (JObj (AList.update k x d))
      | JArr xs \<Rightarrow> Inl (Raised TypeError
          (ascii ''list indices must be integers or slices, not str''))
      | _ \<Rightarrow> Inl (Raised TypeError
          (ascii [CHR 0x27] @ type_name v @ ascii [CHR 0x27]
            @ ascii '' object does not support item assignment'')))"

section \<open>String constants of bot.py\<close>

definition pdf_mime :: ustr where
  \<comment> \<open>application/pdf\<close>
  "pdf_mime = [97, 112, 112, 108, 105, 99, 97, 116, 105, 111, 110, 47, 112, 100, 102]"

definition fence_json :: ustr where
  \<comment> \<open>three backquotes and json: 7 characters\<close>
  "fence_json = [96, 96, 96, 106, 115, 111, 110]"

definition fence :: ustr where
  \<comment> \<open>three backquotes\<close>
  "fence = [96, 96, 96]"

definition reject_msg :: ustr where
  \<comment> \<open>Pozhaluysta, otprav' PDF-fayl.\<close>
  "reject_msg = [1055, 1086, 1078, 1072, 1083, 1091, 1081, 1089, 1090, 1072, 44, 32, 1086,
     1090, 1087, 1088, 1072, 1074, 1100, 32, 80, 68, 70, 45, 1092, 1072, 1081, 1083, 46]"

definition receiving_msg :: ustr where
  \<comment> \<open>(inbox tray) Poluchayu fayl...\<close>
  "receiving_msg = [128229, 32, 1055, 1086, 1083, 1091, 1095, 1072, 1102, 32, 1092, 1072,
     1081, 1083, 46, 46, 46]"

definition analysing_msg :: ustr where
  \<comment> \<open>(brain) Analiziruyu dokument...\<close>
  "analysing_msg = [129504, 32, 1040, 1085, 1072, 1083, 1080, 1079, 1080, 1088, 1091, 1102,
     32, 1076, 1086, 1082, 1091, 1084, 1077, 1085, 1090, 46, 46, 46]"

definition saved_msg :: ustr where
  \<comment> \<open>(outbox tray) Rezul'tat sokhranyon v Google Tablitsu!\<close>
  "saved_msg = [128228, 32, 1056, 1077, 1079, 1091, 1083, 1100, 1090, 1072, 1090, 32, 1089,
     1086, 1093, 1088, 1072, 1085, 1105, 1085, 32, 1074, 32, 71, 111, 111, 103, 108, 101, 32,
     1058, 1072, 1073, 1083, 1080, 1094, 1091, 33]"

definition error_prefix :: ustr where
  \<comment> \<open>(cross mark) Oshibka:\<close>
  "error_prefix = [10060, 32, 1054, 1096, 1080, 1073, 1082, 1072, 58, 32]"

definition log_prefix :: ustr where
  \<comment> \<open>Oshibka zapisi v tablitsu:\<close>
  "log_prefix = [1054, 1096, 1080, 1073, 1082, 1072, 32, 1079, 1072, 1087, 1080, 1089, 1080,
     32, 1074, 32, 1090, 1072, 1073, 1083, 1080, 1094, 1091, 58, 32]"

definition creds_missing_msg :: ustr where
  \<comment> \<open>GOOGLE_CREDENTIALS_B64 ne zadan!\<close>
  "creds_missing_msg = [71, 79, 79, 71, 76, 69, 95, 67, 82, 69, 68, 69, 78, 84, 73, 65, 76,
     83, 95, 66, 54, 52, 32, 1085, 1077, 32, 1079, 1072, 1076, 1072, 1085, 33]"

text \<open>The keys of the record the model is asked for, and the key the handler adds.\<close>

definition k_file :: ustr where  \<comment> \<open>fayl\<close>
  "k_file = [1092, 1072, 1081, 1083]"

definition k_type :: ustr where  \<comment> \<open>tip\<close>
  "k_type = [1090, 1080, 1087]"

definition k_name :: ustr where  \<comment> \<open>imya\<close>
  "k_name = [1080, 1084, 1103]"

definition k_facts :: ustr where  \<comment> \<open>fakty\<close>
  "k_facts = [1092, 1072, 1082, 1090, 1099]"

definition k_role :: ustr where  \<comment> \<open>dolzhnost'\<close>
  "k_role = [1076, 1086, 1083, 1078, 1085, 1086, 1089, 1090, 1100]"

definition k_city :: ustr where  \<comment> \<open>gorod\<close>
  "k_city = [1075, 1086, 1088, 1086, 1076]"

definition k_date :: ustr where  \<comment> \<open>data\<close>
  "k_date = [1076, 1072, 1090, 1072]"

definition k_org :: ustr where  \<comment> \<open>organizatsiya\<close>
  "k_org = [1086, 1088, 1075, 1072, 1085, 1080, 1079, 1072, 1094, 1080, 1103]"

definition k_summary :: ustr where  \<comment> \<open>rezyume\<close>
  "k_summary = [1088, 1077, 1079, 1102, 1084, 1077]"

text \<open>The labels of the reply, each up to and including the blank before the value.\<close>

definition label_type :: ustr where  \<comment> \<open>(check mark) **Tip**:\<close>
  "label_type = [9989, 32, 42, 42, 1058, 1080, 1087, 42, 42, 58, 32]"

definition label_name :: ustr where  \<comment> \<open>newline (bust) **Imya**:\<close>
  "label_name = [10, 128100, 32, 42, 42, 1048, 1084, 1103, 42, 42, 58, 32]"

definition label_role :: ustr where  \<comment> \<open>newline (briefcase) **Dolzhnost'**:\<close>
  "label_role = [10, 128188, 32, 42, 42, 1044, 1086, 1083, 1078, 1085, 1086, 1089, 1090,
     1100, 42, 42, 58, 32]"

definition label_city :: ustr where  \<comment> \<open>newline (cityscape) **Gorod**:\<close>
  "label_city = [10, 127961, 65039, 32, 42, 42, 1043, 1086, 1088, 1086, 1076, 42, 42, 58, 32]"

definition label_date :: ustr where  \<comment> \<open>newline (calendar) **Data**:\<close>
  "label_date = [10, 128197, 32, 42, 42, 1044, 1072, 1090, 1072, 42, 42, 58, 32]"

definition label_org :: ustr where  \<comment> \<open>newline (office) **Organizatsiya**:\<close>
  "label_org = [10, 127970, 32, 42, 42, 1054, 1088, 1075, 1072, 1085, 1080, 1079, 1072, 1094,
     1080, 1103, 42, 42, 58, 32]"

definition label_summary :: ustr where  \<comment> \<open>two newlines (memo) **Rezyume**:\<close>
  "label_summary = [10, 10, 128221, 32, 42, 42, 1056, 1077, 1079, 1102, 1084, 1077, 42, 42,
     58, 32]"

definition dash :: json where
  "dash = JStr [45]"

definition sheet_range :: ustr where  \<comment> \<open>Data!A:A\<close>
  "sheet_range = [68, 97, 116, 97, 33, 65, 58, 65]"

definition sheets_scope :: ustr where
  \<comment> \<open>https://www.googleapis.com/auth/spreadsheets\<close>
  "sheets_scope = [104, 116, 116, 112, 115, 58, 47, 47, 119, 119, 119, 46, 103, 111, 111,
     103, 108, 101, 97, 112, 105, 115, 46, 99, 111, 109, 47, 97, 117, 116, 104, 47, 115, 112,
     114, 101, 97, 100, 115, 104, 101, 101, 116, 115]"

text \<open>The prompt of \<open>analyze_document\<close>: the text before and after the document.\<close>

definition prompt_head :: ustr where
  "prompt_head = [1055, 1088, 1086, 1072, 1085, 1072, 1083, 1080, 1079, 1080, 1088, 1091,
     1081, 32, 1076, 1086, 1082, 1091, 1084, 1077, 1085, 1090, 32, 1080, 32, 1080, 1079, 1074,
     1083, 1077, 1082, 1080, 58, 10, 45, 32, 1058, 1080, 1087, 32, 1076, 1086, 1082, 1091,
     1084, 1077, 1085, 1090, 1072, 10, 45, 32, 1048, 1084, 1103, 32, 1095, 1077, 1083, 1086,
     1074, 1077, 1082, 1072, 32, 40, 1077, 1089, 1083, 1080, 32, 1077, 1089, 1090, 1100, 41,
     10, 45, 32, 1050, 1083, 1102, 1095, 1077, 1074, 1099, 1077, 32, 1092, 1072, 1082, 1090,
     1099, 58, 32, 1076, 1086, 1083, 1078, 1085, 1086, 1089, 1090, 1100, 44, 32, 1075, 1086,
     1088, 1086, 1076, 44, 32, 1076, 1072, 1090, 1072, 44, 32, 1086, 1088, 1075, 1072, 1085,
     1080, 1079, 1072, 1094, 1080, 1103, 10, 45, 32, 1050, 1088, 1072, 1090, 1082, 1086, 1077,
     32, 1088, 1077, 1079, 1102, 1084, 1077, 32, 40, 49, 8211, 50, 32, 1087, 1088, 1077, 1076,
     1083, 1086, 1078, 1077, 1085, 1080, 1103, 41, 10, 10, 1042, 1077, 1088, 1085, 1080, 32,
     1058, 1054, 1051, 1068, 1050, 1054, 32, 1074, 1072, 1083, 1080, 1076, 1085, 1099, 1081,
     32, 74, 83, 79, 78, 32, 1073, 1077, 1079, 32, 96, 96, 96, 106, 115, 111, 110, 46, 10, 10,
     1060, 1086, 1088, 1084, 1072, 1090, 58, 10, 123, 10, 32, 32, 34, 1090, 1080, 1087, 34,
     58, 32, 34, 46, 46, 46, 34, 44, 10, 32, 32, 34, 1080, 1084, 1103, 34, 58, 32, 34, 46, 46,
     46, 34, 44, 10, 32, 32, 34, 1092, 1072, 1082, 1090, 1099, 34, 58, 32, 123, 10, 32, 32,
     32, 32, 34, 1076, 1086, 1083, 1078, 1085, 1086, 1089, 1090, 1100, 34, 58, 32, 34, 46, 46,
     46, 34, 44, 10, 32, 32, 32, 32, 34, 1075, 1086, 1088, 1086, 1076, 34, 58, 32, 34, 46, 46,
     46, 34, 44, 10, 32, 32, 32, 32, 34, 1076, 1072, 1090, 1072, 34, 58, 32, 34, 46, 46, 46,
     34, 44, 10, 32, 32, 32, 32, 34, 1086, 1088, 1075, 1072, 1085, 1080, 1079, 1072, 1094,
     1080, 1103, 34, 58, 32, 34, 46, 46, 46, 34, 10, 32, 32, 125, 44, 10, 32, 32, 34, 1088,
     1077, 1079, 1102, 1084, 1077, 34, 58, 32, 34, 46, 46, 46, 34, 10, 125, 10, 10, 1058, 1077,
     1082, 1089, 1090, 58, 10]"

definition prompt_tail :: ustr where
  "prompt_tail = [10, 10, 1054, 1090, 1074, 1077, 1090, 58]"

definition prompt :: "ustr \<Rightarrow> ustr" where
  "prompt text = prompt_head @ text @ prompt_tail"

section \<open>Collaborators and effects\<close>

text \<open>
  Everything outside \<open>bot.py\<close> is a field of \<open>world\<close>: the process environment read by
  \<open>os.getenv\<close>, and the outcome of every library and network call.  A call that can
  raise returns \<open>exn + 'a\<close>, or \<open>exn option\<close> when it returns nothing.  \<open>py_str\<close> is
  \<open>str()\<close> of a value that is not a string.
\<close>

datatype credentials = Credentials json "ustr list"

record world =
  TELEGRAM_BOT_TOKEN :: "ustr option"
  DEEPSEEK_API_KEY :: "ustr option"
  SPREADSHEET_ID :: "ustr option"
  GOOGLE_CREDENTIALS_B64 :: "ustr option"
  chat_openai :: "ustr option \<Rightarrow> exn option"
  application_build :: "ustr option \<Rightarrow> exn option"
  reply_text :: "ustr \<Rightarrow> bool \<Rightarrow> exn option"
  get_file :: "ustr \<Rightarrow> exn + ustr"
  download_as_bytearray :: "ustr \<Rightarrow> exn + nat list"
  named_temporary_file :: "exn + ustr"
  tmp_write :: "ustr \<Rightarrow> nat list \<Rightarrow> exn option"
  tmp_close :: "ustr \<Rightarrow> exn option"
  pdf_load :: "nat list \<Rightarrow> exn + ustr list"
  llm_invoke :: "ustr \<Rightarrow> exn + ustr"
  json_loads :: "ustr \<Rightarrow> exn + json"
  py_str :: "json \<Rightarrow> ustr"
  b64decode_utf8 :: "ustr \<Rightarrow> exn + ustr"
  from_service_account_info :: "json \<Rightarrow> ustr list \<Rightarrow> exn option"
  discovery_build :: "credentials \<Rightarrow> exn option"
  append_execute :: "ustr option \<Rightarrow> json list \<Rightarrow> exn option"
  os_unlink :: "ustr \<Rightarrow> exn option"

text \<open>The attachment of the incoming message, \<open>update.message.document\<close>.\<close>

record document =
  file_id :: ustr
  file_name :: "ustr option"
  mime_type :: "ustr option"

text \<open>
  The calls that leave the process, in the order they are made.  \<open>Reply text markdown\<close>
  is \<open>update.message.reply_text\<close>, with \<open>parse_mode="Markdown"\<close> when the flag is set;
  \<open>Append\<close> is the append request to the spreadsheet with its identifier, range and row;
  \<open>Print\<close> is the log line of \<open>write_to_sheet\<close>.
\<close>

datatype event =
    Reply ustr bool
  | GetFile ustr
  | Download ustr
  | TmpCreate
  | TmpWrite ustr "nat list"
  | TmpClose ustr
  | Load ustr
  | Invoke ustr
  | Build credentials
  | Append "ustr option" ustr "json list"
  | Print ustr
  | Unlink ustr

text \<open>
  The state of one run of the handler: the calls made so far and the local variable
  \<open>tmp_path\<close>, which is unbound (\<open>None\<close>) until line 125 assigns it.
\<close>

record frame =
  trace :: "event list"
  tmp_path :: "ustr option"

type_synonym 'a io = "frame \<Rightarrow> (exn + 'a) \<times> frame"

definition bind_io :: "'a io \<Rightarrow> ('a \<Rightarrow> 'b io) \<Rightarrow> 'b io" where
  "bind_io m f = (\<lambda>s. case m s of (Inl e, s') \<Rightarrow> (Inl e, s') | (Inr a, s') \<Rightarrow> f a s')"

definition lift :: "exn + 'a \<Rightarrow> 'a io" where
  "lift r = (\<lambda>s. (r, s))"

definition call :: "event \<Rightarrow> exn + 'a \<Rightarrow> 'a io" where
  "call ev r = (\<lambda>s. (r, s\<lparr>trace := trace s @ [ev]\<rparr>))"

definition call_unit :: "event \<Rightarrow> exn option \<Rightarrow> unit io" where
  "call_unit ev r = call ev (raise_opt r)"

definition assign_tmp_path :: "ustr \<Rightarrow> unit io" where
  "assign_tmp_path p = (\<lambda>s. (Inr (), s\<lparr>tmp_path := Some p\<rparr>))"

text \<open>\<open>try: m  except Exception as e: h e\<close>\<close>

definition try_except :: "'a io \<Rightarrow> (exn \<Rightarrow> 'a io) \<Rightarrow> 'a io" where
  "try_except m h =
     (\<lambda>s. case m s of
            (Inl e, s') \<Rightarrow> if is_Exception e then h e s' else (Inl e, s')
          | (Inr a, s') \<Rightarrow> (Inr a, s'))"

text \<open>
  \<open>try: m  finally: c\<close>, and the exit of a \<open>with\<close> block: \<open>c\<close> runs however \<open>m\<close> ends,
  and an exception of \<open>c\<close> replaces the outcome of \<open>m\<close>.
\<close>

definition try_finally :: "'a io \<Rightarrow> unit io \<Rightarrow> 'a io" where
  "try_finally m c =
     (\<lambda>s. case m s of
            (r, s') \<Rightarrow> (case c s' of (Inl e, s'') \<Rightarrow> (Inl e, s'') | (Inr u, s'') \<Rightarrow> (r, s'')))"

definition reply :: "world \<Rightarrow> ustr \<Rightarrow> bool \<Rightarrow> unit io" where
  "reply w text markdown = call_unit (Reply text markdown) (reply_text w text markdown)"

section \<open>The program\<close>

subsection \<open>Start-up: the module level and main\<close>

text \<open>
  Lines 17 to 28 read three environment variables and construct the model client;
  \<open>main\<close> builds the application from the bot token, registers the two handlers and
  starts polling.  The result is \<open>Inr ()\<close> when polling starts.
\<close>

definition main :: "world \<Rightarrow> exn + unit" where
  "main w =
     bind_exn (raise_opt (chat_openai w (DEEPSEEK_API_KEY w)))
       (\<lambda>llm. raise_opt (application_build w (TELEGRAM_BOT_TOKEN w)))"

subsection \<open>get_google_creds\<close>

definition get_google_creds :: "world \<Rightarrow> exn + credentials" where
  "get_google_creds w =
     (case GOOGLE_CREDENTIALS_B64 w of
        None \<Rightarrow> Inl (Raised EnvironmentError creds_missing_msg)
      | Some b64_str \<Rightarrow>
          if b64_str = [] then Inl (Raised EnvironmentError creds_missing_msg)
          else
            bind_exn (b64decode_utf8 w b64_str) (\<lambda>creds_json.
            bind_exn (json_loads w creds_json) (\<lambda>creds_dict.
            bind_exn (raise_opt (from_service_account_info w creds_dict [sheets_scope]))
              (\<lambda>u. Inr (Credentials creds_dict [sheets_scope])))))"

subsection \<open>analyze_document\<close>

text \<open>Lines 69 to 74: the text handed to \<open>json.loads\<close>, from the content of the reply.\<close>

definition cleaned :: "ustr \<Rightarrow> ustr" where
  "cleaned content =
     (let response = strip content;
          response = (if startswith response fence_json then drop 7 response else response);
          response = (if endswith response fence
                      then take (length response - 3) response else response)
      in strip response)"

definition analyze_document :: "world \<Rightarrow> ustr \<Rightarrow> json io" where
  "analyze_document w text =
     bind_io (call (Invoke (prompt text)) (llm_invoke w (prompt text)))
       (\<lambda>content. lift (json_loads w (cleaned content)))"

subsection \<open>write_to_sheet\<close>

text \<open>Lines 81 to 91: the row built from \<open>data\<close>.\<close>

definition sheet_row :: "json \<Rightarrow> exn + json list" where
  "sheet_row data =
     bind_exn (py_get data k_facts (JObj [])) (\<lambda>facts.
     bind_exn (py_get data k_file (JStr [])) (\<lambda>c0.
     bind_exn (py_get data k_type (JStr [])) (\<lambda>c1.
     bind_exn (py_get data k_name (JStr [])) (\<lambda>c2.
     bind_exn (py_get facts k_role (JStr [])) (\<lambda>c3.
     bind_exn (py_get facts k_city (JStr [])) (\<lambda>c4.
     bind_exn (py_get facts k_date (JStr [])) (\<lambda>c5.
     bind_exn (py_get facts k_org (JStr [])) (\<lambda>c6.
     bind_exn (py_get data k_summary (JStr [])) (\<lambda>c7.
     Inr [c0, c1, c2, c3, c4, c5, c6, c7])))))))))"

definition write_to_sheet :: "world \<Rightarrow> json \<Rightarrow> ustr option \<Rightarrow> unit io" where
  "write_to_sheet w data sheet_id =
     try_except
       (bind_io (lift (get_google_creds w)) (\<lambda>creds.
        bind_io (call_unit (Build creds) (discovery_build w creds)) (\<lambda>service.
        bind_io (lift (sheet_row data)) (\<lambda>row.
        call_unit (Append sheet_id sheet_range row) (append_execute w sheet_id row)))))
       (\<lambda>e. call (Print (log_prefix @ str_exn e)) (Inr ()))"

subsection \<open>handle_document\<close>

text \<open>What an f-string puts for \<open>{v}\<close>.\<close>

definition format_value :: "world \<Rightarrow> json \<Rightarrow> ustr" where
  "format_value w v = (case v of JStr s \<Rightarrow> s | _ \<Rightarrow> py_str w v)"

text \<open>Lines 136 to 144: the reply text built from \<open>result\<close>.\<close>

definition response_text :: "world \<Rightarrow> json \<Rightarrow> exn + ustr" where
  "response_text w result =
     bind_exn (py_get result k_type dash) (\<lambda>t.
     bind_exn (py_get result k_name dash) (\<lambda>n.
     bind_exn (bind_exn (py_get result k_facts (JObj [])) (\<lambda>f. py_get f k_role dash)) (\<lambda>r.
     bind_exn (bind_exn (py_get result k_facts (JObj [])) (\<lambda>f. py_get f k_city dash)) (\<lambda>c.
     bind_exn (bind_exn (py_get result k_facts (JObj [])) (\<lambda>f. py_get f k_date dash)) (\<lambda>d.
     bind_exn (bind_exn (py_get result k_facts (JObj [])) (\<lambda>f. py_get f k_org dash)) (\<lambda>g.
     bind_exn (py_get result k_summary dash) (\<lambda>s.
     Inr (label_type @ format_value w t @ label_name @ format_value w n
          @ label_role @ format_value w r @ label_city @ format_value w c
          @ label_date @ format_value w d @ label_org @ format_value w g
          @ label_summary @ format_value w s))))))))"

text \<open>
  Lines 119 to 125: the file is fetched and written to a temporary file that outlives
  its \<open>with\<close> block.  The local \<open>tmp_path\<close> is bound after the write, inside the block.
\<close>

definition save_to_temp :: "world \<Rightarrow> document \<Rightarrow> (ustr \<times> nat list) io" where
  "save_to_temp w file =
     bind_io (call (GetFile (file_id file)) (get_file w (file_id file))) (\<lambda>tg_file.
     bind_io (call (Download tg_file) (download_as_bytearray w tg_file)) (\<lambda>file_bytes.
     bind_io (call TmpCreate (named_temporary_file w)) (\<lambda>name.
     bind_io (try_finally
                (bind_io (call_unit (TmpWrite name file_bytes) (tmp_write w name file_bytes))
                   (\<lambda>u. assign_tmp_path name))
                (call_unit (TmpClose name) (tmp_close w name)))
       (\<lambda>u. lift (Inr (name, file_bytes))))))"

text \<open>Lines 127 to 150: extraction, analysis, the reply and the row.\<close>

definition analyze_and_save :: "world \<Rightarrow> document \<Rightarrow> ustr \<Rightarrow> nat list \<Rightarrow> unit io" where
  "analyze_and_save w file name file_bytes =
     bind_io (call (Load name) (pdf_load w file_bytes)) (\<lambda>pages.
     bind_io (reply w analysing_msg False) (\<lambda>u.
     bind_io (analyze_document w (str_join [10] pages)) (\<lambda>result.
     bind_io (lift (response_text w result)) (\<lambda>response.
     bind_io (reply w response True) (\<lambda>u.
     bind_io (lift (py_setitem result k_file
                (case file_name file of None \<Rightarrow> JNull | Some n \<Rightarrow> JStr n))) (\<lambda>result'.
     bind_io (write_to_sheet w result' (SPREADSHEET_ID w)) (\<lambda>u.
     reply w saved_msg False)))))))"

text \<open>Lines 118 to 150: the body of the \<open>try\<close>.\<close>

definition try_body :: "world \<Rightarrow> document \<Rightarrow> unit io" where
  "try_body w file =
     bind_io (save_to_temp w file)
       (\<lambda>(name, file_bytes). analyze_and_save w file name file_bytes)"

text \<open>Lines 154 to 156: the \<open>finally\<close> block.\<close>

definition cleanup :: "world \<Rightarrow> unit io" where
  "cleanup w =
     (\<lambda>s. case tmp_path s of
            None \<Rightarrow> (Inr (), s)
          | Some p \<Rightarrow> call_unit (Unlink p) (os_unlink w p) s)"

text \<open>
  The handler starts with a fresh frame on top of the calls made before it, and leaves
  the calls it made.
\<close>

definition handle_document ::
  "world \<Rightarrow> document \<Rightarrow> event list \<Rightarrow> (exn + unit) \<times> event list" where
  "handle_document w file t =
     (case (if mime_type file \<noteq> Some pdf_mime then reply w reject_msg False
            else bind_io (reply w receiving_msg False) (\<lambda>u.
                   try_finally
                     (try_except (try_body w file)
                        (\<lambda>e. reply w (error_prefix @ str_exn e) False))
                     (cleanup w)))
             \<lparr>trace = t, tmp_path = None\<rparr> of
        (r, s) \<Rightarrow> (r, trace s))"

text \<open>
  A computation that only makes calls: it leaves \<open>tmp_path\<close> as it is and adds to the
  trace.  Used to follow the temporary file through the handler.
\<close>

definition appends :: "'a io \<Rightarrow> bool" where
  "appends m \<longleftrightarrow> (\<forall>s. \<exists>calls. snd (m s) = s\<lparr>trace := trace s @ calls\<rparr>)"

section \<open>Conditions on a run\<close>

text \<open>
  The theorems about the handler say which calls of a run succeed.  The conditions are
  named here; they are not part of the program.

  \<open>bytes_written\<close>: the attachment is a PDF, the first reply goes out, the file is
  fetched and downloaded, and the temporary file is created and written.
\<close>

definition bytes_written ::
  "world \<Rightarrow> document \<Rightarrow> ustr \<Rightarrow> nat list \<Rightarrow> ustr \<Rightarrow> bool" where
  "bytes_written w file tg_file file_bytes name \<longleftrightarrow>
     mime_type file = Some pdf_mime
     \<and> reply_text w receiving_msg False = None
     \<and> get_file w (file_id file) = Inr tg_file
     \<and> download_as_bytearray w tg_file = Inr file_bytes
     \<and> named_temporary_file w = Inr name
     \<and> tmp_write w name file_bytes = None"

text \<open>\<open>text_extracted\<close>: moreover the file closes, the loader returns the pages and the
  second reply goes out, so that the run reaches \<open>analyze_document\<close>.\<close>

definition text_extracted ::
  "world \<Rightarrow> document \<Rightarrow> ustr \<Rightarrow> nat list \<Rightarrow> ustr \<Rightarrow> ustr list \<Rightarrow> bool" where
  "text_extracted w file tg_file file_bytes name pages \<longleftrightarrow>
     bytes_written w file tg_file file_bytes name
     \<and> tmp_close w name = None
     \<and> pdf_load w file_bytes = Inr pages
     \<and> reply_text w analysing_msg False = None"

definition extraction_calls :: "document \<Rightarrow> ustr \<Rightarrow> nat list \<Rightarrow> ustr \<Rightarrow> event list" where
  "extraction_calls file tg_file file_bytes name =
     [Reply receiving_msg False, GetFile (file_id file), Download tg_file, TmpCreate,
      TmpWrite name file_bytes, TmpClose name, Load name, Reply analysing_msg False]"

text \<open>\<open>analysis_replied\<close>: the model answers \<open>content\<close>, which parses to the dictionary
  \<open>d\<close>, and the formatted reply \<open>response\<close> goes out.\<close>

definition analysis_replied ::
  "world \<Rightarrow> ustr list \<Rightarrow> ustr \<Rightarrow> (ustr \<times> json) list \<Rightarrow> ustr \<Rightarrow> bool" where
  "analysis_replied w pages content d response \<longleftrightarrow>
     llm_invoke w (prompt (str_join [10] pages)) = Inr content
     \<and> json_loads w (cleaned content) = Inr (JObj d)
     \<and> response_text w (JObj d) = Inr response
     \<and> reply_text w response True = None"

text \<open>The dictionary handed to \<open>write_to_sheet\<close>: line 148 adds the file name.\<close>

definition with_file_name :: "document \<Rightarrow> (ustr \<times> json) list \<Rightarrow> json" where
  "with_file_name file d =
     JObj (AList.update k_file (case file_name file of None \<Rightarrow> JNull | Some n \<Rightarrow> JStr n) d)"

text \<open>
  The record of the data model, as far as a dictionary can be one: a field is a string
  or absent, and the facts are a dictionary of such fields or absent.
\<close>

definition text_or_absent :: "(ustr \<times> json) list \<Rightarrow> ustr \<Rightarrow> bool" where
  "text_or_absent d k = (case map_of d k of None \<Rightarrow> True | Some (JStr s) \<Rightarrow> True | Some v \<Rightarrow> False)"

definition facts_of :: "(ustr \<times> json) list \<Rightarrow> (ustr \<times> json) list option" where
  "facts_of d =
     (case map_of d k_facts of None \<Rightarrow> Some [] | Some (JObj f) \<Rightarrow> Some f | Some v \<Rightarrow> None)"

definition analysis_record :: "(ustr \<times> json) list \<Rightarrow> (ustr \<times> json) list \<Rightarrow> bool" where
  "analysis_record d f \<longleftrightarrow>
     text_or_absent d k_file \<and> text_or_absent d k_type \<and> text_or_absent d k_name
     \<and> text_or_absent d k_summary \<and> facts_of d = Some f
     \<and> text_or_absent f k_role \<and> text_or_absent f k_city \<and> text_or_absent f k_date
     \<and> text_or_absent f k_org"

text \<open>The cell of a field: its string, or the empty string when the key is absent.\<close>

definition cell :: "(ustr \<times> json) list \<Rightarrow> ustr \<Rightarrow> json" where
  "cell d k = (case map_of d k of None \<Rightarrow> JStr [] | Some v \<Rightarrow> v)"

text \<open>What the reply shows for a field: the value, or the dash when the key is absent.\<close>

definition shown :: "world \<Rightarrow> (ustr \<times> json) list \<Rightarrow> ustr \<Rightarrow> ustr" where
  "shown w d k = (case map_of d k of None \<Rightarrow> [45] | Some v \<Rightarrow> format_value w v)"

section \<open>A concrete run\<close>

text \<open>
  The scenario of the specification: a two-page document \<open>f.pdf\<close>, and a model that
  answers with a fenced record holding a type and a summary.  \<open>demo_loads\<close> is
  \<open>json.loads\<close> on the texts the run parses; on the other texts used below, which are
  no JSON, it raises as \<open>json.loads\<close> does.
\<close>

definition demo_payload :: ustr where
  \<comment> \<open>{"tip":"pis'mo","rezyume":"ok"}, the keys and the first value in Cyrillic\<close>
  "demo_payload = [123, 34, 1090, 1080, 1087, 34, 58, 34, 1087, 1080, 1089, 1100, 1084, 1086,
     34, 44, 34, 1088, 1077, 1079, 1102, 1084, 1077, 34, 58, 34, 111, 107, 34, 125]"

definition demo_record :: "(ustr \<times> json) list" where
  "demo_record = [(k_type, JStr [1087, 1080, 1089, 1100, 1084, 1086]), (k_summary, JStr (ascii ''ok''))]"

definition demo_content :: ustr where
  "demo_content = fence_json @ [10] @ demo_payload @ [10] @ fence"

definition demo_loads :: "ustr \<Rightarrow> exn + json" where
  "demo_loads s =
     (if s = demo_payload then Inr (JObj demo_record)
      else if s = ascii ''[1, 2]'' then Inr (JArr [JInt 1, JInt 2])
      else if s = ascii ''{\"type\": \"service_account\"}''
        then Inr (JObj [(ascii ''type'', JStr (ascii ''service_account''))])
      else Inl (Raised JSONDecodeError (ascii ''Expecting value: line 1 column 1 (char 0)'')))"

definition demo_str :: "json \<Rightarrow> ustr" where
  "demo_str v =
     (case v of
        JNull \<Rightarrow> ascii ''None''
      | JBool b \<Rightarrow> (if b then ascii ''True'' else ascii ''False'')
      | _ \<Rightarrow> [])"

definition demo_world :: world where
  "demo_world =
     \<lparr> TELEGRAM_BOT_TOKEN = Some (ascii ''token''),
       DEEPSEEK_API_KEY = Some (ascii ''key''),
       SPREADSHEET_ID = Some (ascii ''sheet''),
       GOOGLE_CREDENTIALS_B64 = Some (ascii ''eyJ0eXBlIjogInNlcnZpY2VfYWNjb3VudCJ9''),
       chat_openai = (\<lambda>key. None),
       application_build = (\<lambda>token. None),
       reply_text = (\<lambda>text markdown. None),
       get_file = (\<lambda>file_id. Inr (ascii ''documents/file_0.pdf'')),
       download_as_bytearray = (\<lambda>tg_file. Inr [37, 80, 68, 70]),
       named_temporary_file = Inr (ascii ''/tmp/tmpa1b2c3.pdf''),
       tmp_write = (\<lambda>name file_bytes. None),
       tmp_close = (\<lambda>name. None),
       pdf_load = (\<lambda>file_bytes. Inr [ascii ''Hello'', ascii ''World'']),
       llm_invoke = (\<lambda>prompt. Inr demo_content),
       json_loads = demo_loads,
       py_str = demo_str,
       b64decode_utf8 = (\<lambda>b64_str. Inr (ascii ''{\"type\": \"service_account\"}'')),
       from_service_account_info = (\<lambda>info scopes. None),
       discovery_build = (\<lambda>creds. None),
       append_execute = (\<lambda>sheet_id row. None),
       os_unlink = (\<lambda>path. None) \<rparr>"

definition demo_document :: document where
  "demo_document =
     \<lparr> file_id = ascii ''BQACAgIAAxkBAAIB'',
       file_name = Some (ascii ''f.pdf''),
       mime_type = Some pdf_mime \<rparr>"

definition demo_credentials :: credentials where
  "demo_credentials =
     Credentials (JObj [(ascii ''type'', JStr (ascii ''service_account''))]) [sheets_scope]"

definition demo_frame :: frame where
  "demo_frame = \<lparr> trace = [], tmp_path = None \<rparr>"

definition demo_response :: ustr where
  "demo_response =
     label_type @ [1087, 1080, 1089, 1100, 1084, 1086] @ label_name @ [45] @ label_role @ [45]
     @ label_city @ [45] @ label_date @ [45] @ label_org @ [45] @ label_summary @ ascii ''ok''"

definition demo_row :: "json list" where
  "demo_row =
     [JStr (ascii ''f.pdf''), JStr [1087, 1080, 1089, 1100, 1084, 1086], JStr [], JStr [],
      JStr [], JStr [], JStr [], JStr (ascii ''ok'')]"

text \<open>A record with two facts, one of them \<open>null\<close>, and nothing else but the type.\<close>

definition facts_record :: "(ustr \<times> json) list" where
  "facts_record =
     [(k_type, JStr [1087, 1080, 1089, 1100, 1084, 1086]),
      (k_facts, JObj [(k_city, JStr (ascii ''Omsk'')), (k_date, JNull)])]"

text \<open>Variations of the run: one collaborator behaves differently.\<close>

definition unparseable_world :: world where
  "unparseable_world =
     demo_world\<lparr>llm_invoke := \<lambda>prompt. Inr (ascii ''I cannot read this document.'')\<rparr>"

definition array_world :: world where
  "array_world = demo_world\<lparr>llm_invoke := \<lambda>prompt. Inr (ascii ''[1, 2]'')\<rparr>"

definition append_failing_world :: world where
  "append_failing_world =
     demo_world\<lparr>append_execute := \<lambda>sheet_id row.
       Some (Raised LibraryError (ascii ''The caller does not have permission''))\<rparr>"

definition no_credentials_world :: world where
  "no_credentials_world = demo_world\<lparr>GOOGLE_CREDENTIALS_B64 := None\<rparr>"

definition unreadable_pdf_world :: world where
  "unreadable_pdf_world =
     demo_world\<lparr>pdf_load := \<lambda>file_bytes.
       Inl (Raised LibraryError (ascii ''EOF marker not found''))\<rparr>"

definition png_document :: document where
  "png_document = demo_document\<lparr>mime_type := Some (ascii ''image/png'')\<rparr>"

section \<open>Unfolding the model\<close>

lemmas io_defs = bind_io_def lift_def call_def call_unit_def raise_opt_def assign_tmp_path_def
  try_except_def try_finally_def reply_def cleanup_def

lemmas demo_defs = demo_world_def demo_document_def demo_loads_def demo_payload_def
  demo_record_def demo_content_def demo_frame_def demo_credentials_def demo_response_def
  demo_row_def

lemmas run_defs = text_extracted_def bytes_written_def extraction_calls_def
  analysis_replied_def with_file_name_def

lemmas const_defs = pdf_mime_def fence_json_def fence_def reject_msg_def receiving_msg_def
  analysing_msg_def saved_msg_def error_prefix_def log_prefix_def creds_missing_msg_def
  k_file_def k_type_def k_name_def k_facts_def k_role_def k_city_def k_date_def k_org_def
  k_summary_def label_type_def label_name_def label_role_def label_city_def label_date_def
  label_org_def label_summary_def dash_def sheet_range_def sheets_scope_def

lemmas str_defs = ascii_def isspace_def lstrip_def rstrip_def strip_def startswith_def
  endswith_def suffix_to_prefix cleaned_def

section \<open>The stages of the handler\<close>

lemma handler_after_receiving:
  assumes "mime_type file = Some pdf_mime" and "reply_text w receiving_msg False = None"
  shows "handle_document w file t
       = (case try_finally
                 (try_except (try_body w file)
                    (\<lambda>e. reply w (error_prefix @ str_exn e) False))
                 (cleanup w) \<lparr>trace = t @ [Reply receiving_msg False], tmp_path = None\<rparr> of
            (r, s) \<Rightarrow> (r, trace s))"
  using assms
  by (simp add: handle_document_def bind_io_def reply_def call_unit_def call_def raise_opt_def)

lemma text_extracted_pdf:
  assumes "text_extracted w file tg_file file_bytes name pages"
  shows "mime_type file = Some pdf_mime" and "reply_text w receiving_msg False = None"
  using assms by (simp_all add: text_extracted_def bytes_written_def)

lemma save_to_temp_written:
  assumes "bytes_written w file tg_file file_bytes name"
  shows "save_to_temp w file \<lparr>trace = t, tmp_path = None\<rparr>
       = (case tmp_close w name of None \<Rightarrow> Inr (name, file_bytes) | Some e \<Rightarrow> Inl e,
          \<lparr>trace = t @ [GetFile (file_id file), Download tg_file, TmpCreate,
                       TmpWrite name file_bytes, TmpClose name],
           tmp_path = Some name\<rparr>)"
  using assms
  by (cases "tmp_close w name") (simp_all add: save_to_temp_def bytes_written_def io_defs)

lemma try_body_extracted:
  assumes "text_extracted w file tg_file file_bytes name pages"
  shows "try_body w file \<lparr>trace = t, tmp_path = None\<rparr>
       = bind_io (analyze_document w (str_join [10] pages)) (\<lambda>result.
         bind_io (lift (response_text w result)) (\<lambda>response.
         bind_io (reply w response True) (\<lambda>u.
         bind_io (lift (py_setitem result k_file
                    (case file_name file of None \<Rightarrow> JNull | Some n \<Rightarrow> JStr n))) (\<lambda>result'.
         bind_io (write_to_sheet w result' (SPREADSHEET_ID w)) (\<lambda>u.
         reply w saved_msg False)))))
           \<lparr>trace = t @ tl (extraction_calls file tg_file file_bytes name),
            tmp_path = Some name\<rparr>"
proof -
  have b: "bytes_written w file tg_file file_bytes name"
    and c: "tmp_close w name = None" "pdf_load w file_bytes = Inr pages"
      "reply_text w analysing_msg False = None"
    using assms by (simp_all add: text_extracted_def)
  show ?thesis
    using c
    by (simp add: try_body_def bind_io_def [of "save_to_temp w file"] save_to_temp_written [OF b]
        analyze_and_save_def extraction_calls_def)
       (simp add: io_defs)
qed

lemma write_to_sheet_append:
  assumes "get_google_creds w = Inr creds"
    and "discovery_build w creds = None"
    and "sheet_row data = Inr row"
  shows "write_to_sheet w data sheet_id s
       = (case append_execute w sheet_id row of
            None \<Rightarrow> (Inr (), s\<lparr>trace := trace s @ [Build creds, Append sheet_id sheet_range row]\<rparr>)
          | Some e \<Rightarrow>
              if is_Exception e
              then (Inr (), s\<lparr>trace := trace s @ [Build creds, Append sheet_id sheet_range row,
                                  Print (log_prefix @ str_exn e)]\<rparr>)
              else (Inl e, s\<lparr>trace := trace s @ [Build creds, Append sheet_id sheet_range row]\<rparr>))"
  using assms by (simp add: write_to_sheet_def io_defs split: option.splits)

lemma try_body_replied:
  assumes "text_extracted w file tg_file file_bytes name pages"
    and "analysis_replied w pages content d response"
  shows "try_body w file \<lparr>trace = t, tmp_path = None\<rparr>
       = bind_io (write_to_sheet w (with_file_name file d) (SPREADSHEET_ID w))
           (\<lambda>u. reply w saved_msg False)
           \<lparr>trace = t @ tl (extraction_calls file tg_file file_bytes name)
              @ [Invoke (prompt (str_join [10] pages)), Reply response True],
            tmp_path = Some name\<rparr>"
  using assms(2)
  by (simp add: try_body_extracted [OF assms(1)] analysis_replied_def analyze_document_def
      with_file_name_def py_setitem_def io_defs)

text \<open>The concrete run, stage by stage.\<close>

lemma demo_get_google_creds:
  "get_google_creds (demo_world\<lparr>append_execute := a\<rparr>) = Inr demo_credentials"
  by (simp add: get_google_creds_def demo_defs bind_exn_def raise_opt_def ascii_def)

lemma demo_response_text:
  "response_text (demo_world\<lparr>append_execute := a\<rparr>) (JObj demo_record) = Inr demo_response"
  by (simp add: response_text_def py_get_def bind_exn_def format_value_def demo_defs const_defs
      ascii_def)

lemma demo_cleaned: "cleaned demo_content = demo_payload"
  by (simp add: str_defs const_defs demo_defs)

lemma demo_sheet_row: "sheet_row (with_file_name demo_document demo_record) = Inr demo_row"
  by (simp add: sheet_row_def with_file_name_def py_get_def bind_exn_def demo_defs const_defs
      ascii_def)

lemma demo_analysis_replied:
  "analysis_replied (demo_world\<lparr>append_execute := a\<rparr>) [ascii ''Hello'', ascii ''World'']
     demo_content demo_record demo_response"
  unfolding analysis_replied_def demo_cleaned demo_response_text
  by (simp add: demo_world_def demo_loads_def)

section \<open>Rejection of other attachments\<close>

text \<open>
  Claim C7.  When the declared content type of the attachment is not
  \<open>application/pdf\<close> (or is not given), the handler makes exactly one call, the reply
  with the rejection message, and returns with the outcome of that reply: nothing is
  fetched or downloaded, no temporary file is written, and neither the loader nor the
  model is called.
\<close>

theorem non_pdf_is_rejected:
  assumes "mime_type file \<noteq> Some pdf_mime"
  shows "handle_document w file t
       = (raise_opt (reply_text w reject_msg False), t @ [Reply reject_msg False])"
  using assms by (simp add: handle_document_def io_defs)

theorem non_pdf_is_rejected_witness:
  "mime_type png_document \<noteq> Some pdf_mime
   \<and> handle_document demo_world png_document [] = (Inr (), [Reply reject_msg False])"
  using non_pdf_is_rejected [of png_document demo_world "[]"]
  by (simp add: png_document_def demo_defs pdf_mime_def ascii_def raise_opt_def)

section \<open>A reply of the model that does not parse\<close>

text \<open>
  Claim C1.  Take a run that reaches the analysis, in which the model answers
  \<open>content\<close> and \<open>json.loads\<close> raises \<open>JSONDecodeError\<close> on the cleaned content.  Then
  \<open>analyze_document\<close> ends with that very exception; the model is invoked once; the
  next call of the handler is the reply carrying the message of the exception; no
  append to the spreadsheet is made; and the handler ends by deleting the temporary
  file.
\<close>

theorem parse_error_is_reported:
  assumes "text_extracted w file tg_file file_bytes name pages"
    and "llm_invoke w (prompt (str_join [10] pages)) = Inr content"
    and "json_loads w (cleaned content) = Inl (Raised JSONDecodeError m)"
  shows "fst (analyze_document w (str_join [10] pages) s) = Inl (Raised JSONDecodeError m)
       \<and> snd (handle_document w file t)
         = t @ extraction_calls file tg_file file_bytes name
             @ [Invoke (prompt (str_join [10] pages)), Reply (error_prefix @ m) False,
                Unlink name]"
proof -
  have a: "fst (analyze_document w (str_join [10] pages) s) = Inl (Raised JSONDecodeError m)"
    using assms(2,3) by (simp add: analyze_document_def io_defs)
  have b: "snd (handle_document w file t)
         = t @ extraction_calls file tg_file file_bytes name
             @ [Invoke (prompt (str_join [10] pages)), Reply (error_prefix @ m) False,
                Unlink name]"
    using assms(2,3)
    by (cases "os_unlink w name")
       (simp_all add: handler_after_receiving [OF text_extracted_pdf [OF assms(1)]]
         try_finally_def try_except_def try_body_extracted [OF assms(1)]
         analyze_document_def extraction_calls_def bind_io_def lift_def call_def call_unit_def
         raise_opt_def reply_def cleanup_def)
  from a b show ?thesis by simp
qed

lemma unparseable_cleaned:
  "cleaned (ascii ''I cannot read this document.'') = ascii ''I cannot read this document.''"
  by (simp add: str_defs const_defs)

theorem parse_error_is_reported_witness:
  "text_extracted unparseable_world demo_document (ascii ''documents/file_0.pdf'')
     [37, 80, 68, 70] (ascii ''/tmp/tmpa1b2c3.pdf'') [ascii ''Hello'', ascii ''World'']
   \<and> json_loads unparseable_world (cleaned (ascii ''I cannot read this document.''))
     = Inl (Raised JSONDecodeError (ascii ''Expecting value: line 1 column 1 (char 0)''))
   \<and> snd (handle_document unparseable_world demo_document [])
     = [Reply receiving_msg False, GetFile (ascii ''BQACAgIAAxkBAAIB''),
        Download (ascii ''documents/file_0.pdf''), TmpCreate,
        TmpWrite (ascii ''/tmp/tmpa1b2c3.pdf'') [37, 80, 68, 70],
        TmpClose (ascii ''/tmp/tmpa1b2c3.pdf''), Load (ascii ''/tmp/tmpa1b2c3.pdf''),
        Reply analysing_msg False, Invoke (prompt (ascii ''Hello'' @ [10] @ ascii ''World'')),
        Reply (error_prefix @ ascii ''Expecting value: line 1 column 1 (char 0)'') False,
        Unlink (ascii ''/tmp/tmpa1b2c3.pdf'')]"
proof -
  have x: "text_extracted unparseable_world demo_document (ascii ''documents/file_0.pdf'')
     [37, 80, 68, 70] (ascii ''/tmp/tmpa1b2c3.pdf'') [ascii ''Hello'', ascii ''World'']"
    by (simp add: unparseable_world_def demo_world_def demo_document_def run_defs)
  have l: "llm_invoke unparseable_world (prompt (str_join [10] [ascii ''Hello'', ascii ''World'']))
     = Inr (ascii ''I cannot read this document.'')"
    by (simp add: unparseable_world_def demo_world_def)
  have j: "json_loads unparseable_world (cleaned (ascii ''I cannot read this document.''))
     = Inl (Raised JSONDecodeError (ascii ''Expecting value: line 1 column 1 (char 0)''))"
    unfolding unparseable_cleaned
    by (simp add: unparseable_world_def demo_world_def demo_loads_def demo_payload_def ascii_def)
  show ?thesis
    using parse_error_is_reported [OF x l j, of demo_frame "[]"] x j
    by (simp add: extraction_calls_def demo_document_def)
qed

section \<open>What analyze_document returns\<close>

text \<open>
  Claim C10.  When the model answers \<open>content\<close>, \<open>analyze_document\<close> makes the one call
  to the model and returns exactly what \<open>json.loads\<close> returns on the cleaned content:
  the parsed value whatever it is (a dictionary with any keys, a list, a string, a
  number), with nothing checked in between, and an exception exactly when
  \<open>json.loads\<close> raises one.
\<close>

theorem analyze_document_returns_parse:
  assumes "llm_invoke w (prompt text) = Inr content"
  shows "analyze_document w text s
       = (json_loads w (cleaned content), s\<lparr>trace := trace s @ [Invoke (prompt text)]\<rparr>)
       \<and> ((\<exists>e. fst (analyze_document w text s) = Inl e)
            \<longleftrightarrow> (\<exists>e. json_loads w (cleaned content) = Inl e))"
  using assms by (simp add: analyze_document_def bind_io_def call_def lift_def)

lemma array_cleaned: "cleaned (ascii ''[1, 2]'') = ascii ''[1, 2]''"
  by (simp add: str_defs const_defs)

theorem analyze_document_returns_parse_witness:
  "llm_invoke array_world (prompt (ascii ''Hello'')) = Inr (ascii ''[1, 2]'')
   \<and> fst (analyze_document array_world (ascii ''Hello'') demo_frame) = Inr (JArr [JInt 1, JInt 2])
   \<and> llm_invoke unparseable_world (prompt (ascii ''Hello''))
     = Inr (ascii ''I cannot read this document.'')
   \<and> fst (analyze_document unparseable_world (ascii ''Hello'') demo_frame)
     = Inl (Raised JSONDecodeError (ascii ''Expecting value: line 1 column 1 (char 0)''))"
proof -
  have a: "llm_invoke array_world (prompt (ascii ''Hello'')) = Inr (ascii ''[1, 2]'')"
    by (simp add: array_world_def)
  have u: "llm_invoke unparseable_world (prompt (ascii ''Hello''))
     = Inr (ascii ''I cannot read this document.'')"
    by (simp add: unparseable_world_def)
  have ja: "json_loads array_world (cleaned (ascii ''[1, 2]'')) = Inr (JArr [JInt 1, JInt 2])"
    unfolding array_cleaned
    by (simp add: array_world_def demo_world_def demo_loads_def demo_payload_def ascii_def)
  have ju: "json_loads unparseable_world (cleaned (ascii ''I cannot read this document.''))
     = Inl (Raised JSONDecodeError (ascii ''Expecting value: line 1 column 1 (char 0)''))"
    unfolding unparseable_cleaned
    by (simp add: unparseable_world_def demo_world_def demo_loads_def demo_payload_def ascii_def)
  show ?thesis
    using analyze_document_returns_parse [OF a, of demo_frame]
      analyze_document_returns_parse [OF u, of demo_frame] a u ja ju
    by simp
qed

section \<open>Fenced replies\<close>

text \<open>
  The cleaning of a reply: stripping is idempotent, a fenced text is its own stripped
  form, and the two fences come off.
\<close>

lemma not_isspace_backquote: "\<not> isspace 96"
  by (simp add: isspace_def)

lemma lstrip_Cons_nonspace: "\<not> isspace x \<Longrightarrow> lstrip (x # xs) = x # xs"
  by (simp add: lstrip_def)

lemma rstrip_snoc_nonspace: "\<not> isspace x \<Longrightarrow> rstrip (xs @ [x]) = xs @ [x]"
  by (simp add: rstrip_def)

lemma rstrip_Cons_nonspace:
  "\<not> isspace x \<Longrightarrow> rstrip (x # xs) = x # (if \<forall>y\<in>set xs. isspace y then [] else rstrip xs)"
  by (simp add: rstrip_def dropWhile_append)

lemma lstrip_Nil: "lstrip [] = []"
  by (simp add: lstrip_def)

lemma lstrip_shape: "lstrip s = [] \<or> (\<exists>x xs. lstrip s = x # xs \<and> \<not> isspace x)"
  unfolding lstrip_def
  by (metis dropWhile_eq_Nil_conv hd_dropWhile list.collapse)

lemma rstrip_Nil: "rstrip [] = []"
  by (simp add: rstrip_def)

lemma rstrip_idem: "rstrip (rstrip s) = rstrip s"
  by (simp add: rstrip_def)

lemma strip_idem: "strip (strip s) = strip s"
proof -
  consider "lstrip s = []" | x xs where "lstrip s = x # xs" "\<not> isspace x"
    using lstrip_shape by blast
  then show ?thesis
  proof cases
    case 1
    then show ?thesis by (simp add: strip_def rstrip_Nil lstrip_Nil)
  next
    case 2
    then obtain ys where ys: "rstrip (x # xs) = x # ys"
      using rstrip_Cons_nonspace by simp
    have "lstrip (rstrip (lstrip s)) = rstrip (lstrip s)"
      using 2 ys by (simp add: lstrip_Cons_nonspace)
    then show ?thesis
      by (simp add: strip_def rstrip_idem)
  qed
qed

lemma strip_fenced: "strip (fence_json @ p @ fence) = fence_json @ p @ fence"
proof -
  have l: "lstrip (fence_json @ p @ fence) = fence_json @ p @ fence"
    by (simp add: fence_json_def lstrip_Cons_nonspace not_isspace_backquote)
  have "fence_json @ p @ fence = (fence_json @ p @ [96, 96]) @ [96]"
    by (simp add: fence_def)
  then have "rstrip (fence_json @ p @ fence) = fence_json @ p @ fence"
    using rstrip_snoc_nonspace [OF not_isspace_backquote] by metis
  with l show ?thesis by (simp add: strip_def)
qed

lemma cleaned_fenced: "cleaned (fence_json @ p @ fence) = strip p"
proof -
  have a: "startswith (fence_json @ p @ fence) fence_json"
    by (simp add: startswith_def)
  have b: "drop 7 (fence_json @ p @ fence) = p @ fence"
    by (simp add: fence_json_def)
  have c: "endswith (p @ fence) fence"
    by (simp add: endswith_def suffix_def)
  have d: "take (length (p @ fence) - 3) (p @ fence) = p"
    by (simp add: fence_def)
  show ?thesis
    unfolding cleaned_def strip_fenced Let_def using a b c d by simp
qed

lemma cleaned_plain:
  assumes "\<not> startswith (strip p) fence_json" and "\<not> endswith (strip p) fence"
  shows "cleaned p = strip p"
  using assms by (simp add: cleaned_def Let_def strip_idem)

text \<open>
  A text that, stripped, is not empty and neither starts nor ends with a backquote has
  no fence of its own.  A JSON text is one: it starts with a brace, a bracket, a quote,
  a sign, a digit or a letter, and ends with a brace, a bracket, a quote, a digit or a
  letter.
\<close>

lemma unfenced_by_ends:
  assumes "strip p \<noteq> []" and "hd (strip p) \<noteq> 96" and "last (strip p) \<noteq> 96"
  shows "\<not> startswith (strip p) fence_json \<and> \<not> endswith (strip p) fence"
proof -
  have "\<not> prefix fence_json (strip p)"
    using assms(1,2) by (cases "strip p") (simp_all add: fence_json_def)
  moreover have "\<not> suffix fence (strip p)"
  proof
    assume "suffix fence (strip p)"
    then obtain zs where "strip p = zs @ fence"
      by (auto simp add: suffix_def)
    then have "last (strip p) = 96"
      by (simp add: fence_def)
    with assms(3) show False by simp
  qed
  ultimately show ?thesis
    by (simp add: startswith_def endswith_def)
qed

text \<open>
  Claim C3.  Let \<open>p\<close> be a payload whose stripped text neither starts with the 7-character
  marker nor ends with the 3-character marker; every JSON text is such a payload, since
  it starts and ends with a character of a JSON value and never with a backquote.
  Then the reply made of the leading marker, \<open>p\<close> and the trailing marker is analysed to
  the same outcome, value or exception, as the reply \<open>p\<close> alone.
\<close>

theorem fence_round_trip:
  assumes "\<not> startswith (strip p) fence_json" and "\<not> endswith (strip p) fence"
  shows "analyze_document (w\<lparr>llm_invoke := \<lambda>q. Inr (fence_json @ p @ fence)\<rparr>) text s
       = analyze_document (w\<lparr>llm_invoke := \<lambda>q. Inr p\<rparr>) text s"
  using assms
  by (simp add: analyze_document_def bind_io_def call_def lift_def cleaned_fenced cleaned_plain)

lemma demo_strip: "strip ([10] @ demo_payload @ [10]) = demo_payload"
  by (simp add: str_defs demo_payload_def)

theorem fence_round_trip_witness:
  "\<not> startswith (strip ([10] @ demo_payload @ [10])) fence_json
   \<and> \<not> endswith (strip ([10] @ demo_payload @ [10])) fence
   \<and> analyze_document
       (demo_world\<lparr>llm_invoke := \<lambda>q. Inr (fence_json @ ([10] @ demo_payload @ [10]) @ fence)\<rparr>)
       (ascii ''Hello'') demo_frame
     = analyze_document (demo_world\<lparr>llm_invoke := \<lambda>q. Inr ([10] @ demo_payload @ [10])\<rparr>)
         (ascii ''Hello'') demo_frame
   \<and> fst (analyze_document (demo_world\<lparr>llm_invoke := \<lambda>q. Inr ([10] @ demo_payload @ [10])\<rparr>)
         (ascii ''Hello'') demo_frame)
     = Inr (JObj demo_record)"
proof -
  have a: "\<not> startswith (strip ([10] @ demo_payload @ [10])) fence_json"
    unfolding demo_strip by (simp add: startswith_def demo_payload_def fence_json_def)
  have b: "\<not> endswith (strip ([10] @ demo_payload @ [10])) fence"
    unfolding demo_strip by (simp add: endswith_def suffix_to_prefix demo_payload_def fence_def)
  have cl: "cleaned (10 # demo_payload @ [10]) = demo_payload"
    using cleaned_plain [OF a b] demo_strip by simp
  have c: "fst (analyze_document (demo_world\<lparr>llm_invoke := \<lambda>q. Inr ([10] @ demo_payload @ [10])\<rparr>)
         (ascii ''Hello'') demo_frame)
     = Inr (JObj demo_record)"
    using cl by (simp add: analyze_document_def bind_io_def call_def lift_def demo_world_def
        demo_loads_def)
  show ?thesis
    using fence_round_trip [OF a b, of demo_world "ascii ''Hello''" demo_frame] a b c by simp
qed

section \<open>The row for the spreadsheet\<close>

lemma text_or_absent_cell:
  assumes "text_or_absent d k"
  shows "\<exists>s. cell d k = JStr s"
  using assms by (auto simp add: text_or_absent_def cell_def split: option.splits json.splits)

lemma py_get_dict: "py_get (JObj d) k (JStr []) = Inr (cell d k)"
  by (simp add: py_get_def cell_def)

lemma py_get_facts:
  assumes "facts_of d = Some f"
  shows "py_get (JObj d) k_facts (JObj []) = Inr (JObj f)"
  using assms by (auto simp add: py_get_def facts_of_def split: option.splits json.splits)

text \<open>
  Claim C2.  For a dictionary \<open>d\<close> that is an analysis record with facts \<open>f\<close> (every
  field a string or absent, the facts a dictionary or absent), the row has exactly
  eight cells, in the order file name, type, name, role, city, date, organization,
  summary; every cell is a string, and the cell of an absent field is the empty string.
\<close>

theorem row_has_eight_text_cells:
  assumes "analysis_record d f"
  shows "\<exists>row. sheet_row (JObj d) = Inr row
       \<and> row = [cell d k_file, cell d k_type, cell d k_name, cell f k_role, cell f k_city,
                cell f k_date, cell f k_org, cell d k_summary]
       \<and> length row = 8
       \<and> (\<forall>c \<in> set row. \<exists>s. c = JStr s)"
proof -
  have f: "facts_of d = Some f"
    using assms by (simp add: analysis_record_def)
  have row: "sheet_row (JObj d)
      = Inr [cell d k_file, cell d k_type, cell d k_name, cell f k_role, cell f k_city,
             cell f k_date, cell f k_org, cell d k_summary]"
    by (simp add: sheet_row_def bind_exn_def py_get_facts [OF f] py_get_dict)
  have "\<exists>s. cell d k_file = JStr s" "\<exists>s. cell d k_type = JStr s" "\<exists>s. cell d k_name = JStr s"
    "\<exists>s. cell f k_role = JStr s" "\<exists>s. cell f k_city = JStr s" "\<exists>s. cell f k_date = JStr s"
    "\<exists>s. cell f k_org = JStr s" "\<exists>s. cell d k_summary = JStr s"
    using assms by (simp_all add: analysis_record_def text_or_absent_cell)
  with row show ?thesis by simp
qed

lemma demo_analysis_record:
  "analysis_record (AList.update k_file (JStr (ascii ''f.pdf'')) demo_record) []"
  by (simp add: analysis_record_def text_or_absent_def facts_of_def demo_record_def const_defs
      ascii_def)

theorem row_has_eight_text_cells_witness:
  "analysis_record (AList.update k_file (JStr (ascii ''f.pdf'')) demo_record) []
   \<and> sheet_row (with_file_name demo_document demo_record)
     = Inr [JStr (ascii ''f.pdf''), JStr [1087, 1080, 1089, 1100, 1084, 1086], JStr [], JStr [],
            JStr [], JStr [], JStr [], JStr (ascii ''ok'')]"
proof -
  have w: "with_file_name demo_document demo_record
      = JObj (AList.update k_file (JStr (ascii ''f.pdf'')) demo_record)"
    by (simp add: with_file_name_def demo_document_def)
  have c: "[cell (AList.update k_file (JStr (ascii ''f.pdf'')) demo_record) k_file,
            cell (AList.update k_file (JStr (ascii ''f.pdf'')) demo_record) k_type,
            cell (AList.update k_file (JStr (ascii ''f.pdf'')) demo_record) k_name,
            cell [] k_role, cell [] k_city, cell [] k_date, cell [] k_org,
            cell (AList.update k_file (JStr (ascii ''f.pdf'')) demo_record) k_summary]
      = [JStr (ascii ''f.pdf''), JStr [1087, 1080, 1089, 1100, 1084, 1086], JStr [], JStr [],
            JStr [], JStr [], JStr [], JStr (ascii ''ok'')]"
    by (simp add: cell_def demo_record_def const_defs)
  show ?thesis
    using row_has_eight_text_cells [OF demo_analysis_record] demo_analysis_record
    unfolding w c by auto
qed

section \<open>The reply text\<close>

lemma py_get_dash:
  "py_get (JObj d) k dash = Inr (case map_of d k of None \<Rightarrow> dash | Some x \<Rightarrow> x)"
  by (simp add: py_get_def)

lemma format_value_shown:
  "format_value w (case map_of d k of None \<Rightarrow> dash | Some x \<Rightarrow> x) = shown w d k"
  by (simp add: shown_def dash_def format_value_def split: option.splits)

text \<open>
  Claim C8.  For a dictionary \<open>d\<close> whose facts are a dictionary \<open>f\<close> or absent (then
  \<open>f\<close> is empty), the reply text is the seven labels in their order, each followed by
  what is shown for its field: the dash when the key is absent, the string itself when
  the value is a string, and \<open>str\<close> of the value otherwise.
\<close>

theorem reply_shows_value_or_dash:
  assumes "facts_of d = Some f"
  shows "response_text w (JObj d)
       = Inr (label_type @ shown w d k_type @ label_name @ shown w d k_name
              @ label_role @ shown w f k_role @ label_city @ shown w f k_city
              @ label_date @ shown w f k_date @ label_org @ shown w f k_org
              @ label_summary @ shown w d k_summary)
       \<and> (\<forall>k \<in> {k_type, k_name, k_summary}.
            (map_of d k = None \<longrightarrow> shown w d k = [45])
            \<and> (\<forall>v. map_of d k = Some (JStr v) \<longrightarrow> shown w d k = v))
       \<and> (\<forall>k \<in> {k_role, k_city, k_date, k_org}.
            (map_of f k = None \<longrightarrow> shown w f k = [45])
            \<and> (\<forall>v. map_of f k = Some (JStr v) \<longrightarrow> shown w f k = v))"
proof -
  have "response_text w (JObj d)
       = Inr (label_type @ shown w d k_type @ label_name @ shown w d k_name
              @ label_role @ shown w f k_role @ label_city @ shown w f k_city
              @ label_date @ shown w f k_date @ label_org @ shown w f k_org
              @ label_summary @ shown w d k_summary)"
    by (simp add: response_text_def bind_exn_def py_get_facts [OF assms] py_get_dash
        format_value_shown)
  moreover have "map_of m k = None \<longrightarrow> shown w m k = [45]" for m k
    by (simp add: shown_def)
  moreover have "map_of m k = Some (JStr v) \<longrightarrow> shown w m k = v" for m k v
    by (simp add: shown_def format_value_def)
  ultimately show ?thesis by blast
qed

theorem reply_shows_value_or_dash_witness:
  "facts_of facts_record = Some [(k_city, JStr (ascii ''Omsk'')), (k_date, JNull)]
   \<and> response_text demo_world (JObj facts_record)
     = Inr (label_type @ [1087, 1080, 1089, 1100, 1084, 1086] @ label_name @ [45]
            @ label_role @ [45] @ label_city @ ascii ''Omsk'' @ label_date @ ascii ''None''
            @ label_org @ [45] @ label_summary @ [45])"
proof -
  have f: "facts_of facts_record = Some [(k_city, JStr (ascii ''Omsk'')), (k_date, JNull)]"
    by (simp add: facts_of_def facts_record_def const_defs)
  have s: "shown demo_world facts_record k_type = [1087, 1080, 1089, 1100, 1084, 1086]"
    "shown demo_world facts_record k_name = [45]"
    "shown demo_world facts_record k_summary = [45]"
    "shown demo_world [(k_city, JStr (ascii ''Omsk'')), (k_date, JNull)] k_role = [45]"
    "shown demo_world [(k_city, JStr (ascii ''Omsk'')), (k_date, JNull)] k_city = ascii ''Omsk''"
    "shown demo_world [(k_city, JStr (ascii ''Omsk'')), (k_date, JNull)] k_date = ascii ''None''"
    "shown demo_world [(k_city, JStr (ascii ''Omsk'')), (k_date, JNull)] k_org = [45]"
    by (simp_all add: shown_def facts_record_def format_value_def demo_world_def demo_str_def
        const_defs)
  show ?thesis
    using reply_shows_value_or_dash [OF f, of demo_world] f
    unfolding s by simp
qed

section \<open>A failing append\<close>

text \<open>
  Claim C6.  Take a run in which the analysis reply has gone out, the credentials and
  the service are there, and the append raises an \<open>Exception\<close> \<open>e\<close>.  Then the calls
  after the analysis reply are the append, the log line with the message of \<open>e\<close>, the
  confirmation and the deletion of the temporary file: no reply carries the error, and
  the handler returns normally when the confirmation goes out and the file is deleted.
\<close>

theorem append_failure_is_only_logged:
  assumes "text_extracted w file tg_file file_bytes name pages"
    and "analysis_replied w pages content d response"
    and "get_google_creds w = Inr creds"
    and "discovery_build w creds = None"
    and "sheet_row (with_file_name file d) = Inr row"
    and "append_execute w (SPREADSHEET_ID w) row = Some e"
    and "is_Exception e"
    and "reply_text w saved_msg False = None"
    and "os_unlink w name = None"
  shows "handle_document w file t
       = (Inr (),
          t @ extraction_calls file tg_file file_bytes name
            @ [Invoke (prompt (str_join [10] pages)), Reply response True, Build creds,
               Append (SPREADSHEET_ID w) sheet_range row, Print (log_prefix @ str_exn e),
               Reply saved_msg False, Unlink name])"
  using assms(6-9)
  by (simp add: handler_after_receiving [OF text_extracted_pdf [OF assms(1)]]
      try_body_replied [OF assms(1,2)] write_to_sheet_append [OF assms(3-5)] io_defs
      extraction_calls_def)

theorem append_failure_is_only_logged_witness:
  "append_execute append_failing_world (SPREADSHEET_ID append_failing_world) demo_row
     = Some (Raised LibraryError (ascii ''The caller does not have permission''))
   \<and> handle_document append_failing_world demo_document []
     = (Inr (),
        [Reply receiving_msg False, GetFile (ascii ''BQACAgIAAxkBAAIB''),
         Download (ascii ''documents/file_0.pdf''), TmpCreate,
         TmpWrite (ascii ''/tmp/tmpa1b2c3.pdf'') [37, 80, 68, 70],
         TmpClose (ascii ''/tmp/tmpa1b2c3.pdf''), Load (ascii ''/tmp/tmpa1b2c3.pdf''),
         Reply analysing_msg False, Invoke (prompt (ascii ''Hello'' @ [10] @ ascii ''World'')),
         Reply demo_response True, Build demo_credentials,
         Append (Some (ascii ''sheet'')) sheet_range demo_row,
         Print (log_prefix @ ascii ''The caller does not have permission''),
         Reply saved_msg False, Unlink (ascii ''/tmp/tmpa1b2c3.pdf'')])"
proof -
  let ?w = "append_failing_world"
  let ?e = "Raised LibraryError (ascii ''The caller does not have permission'')"
  have x: "text_extracted ?w demo_document (ascii ''documents/file_0.pdf'')
     [37, 80, 68, 70] (ascii ''/tmp/tmpa1b2c3.pdf'') [ascii ''Hello'', ascii ''World'']"
    by (simp add: append_failing_world_def demo_world_def demo_document_def run_defs)
  have r: "analysis_replied ?w [ascii ''Hello'', ascii ''World''] demo_content demo_record
     demo_response"
    unfolding append_failing_world_def by (rule demo_analysis_replied)
  have c: "get_google_creds ?w = Inr demo_credentials"
    unfolding append_failing_world_def by (rule demo_get_google_creds)
  have b: "discovery_build ?w demo_credentials = None"
    by (simp add: append_failing_world_def demo_world_def)
  have a: "append_execute ?w (SPREADSHEET_ID ?w) demo_row = Some ?e"
    by (simp add: append_failing_world_def)
  have e: "is_Exception ?e" by simp
  have s: "reply_text ?w saved_msg False = None" and u: "os_unlink ?w (ascii ''/tmp/tmpa1b2c3.pdf'') = None"
    by (simp_all add: append_failing_world_def demo_world_def)
  show ?thesis
    using append_failure_is_only_logged [OF x r c b demo_sheet_row a e s u, of "[]"] a
    by (simp add: extraction_calls_def demo_document_def append_failing_world_def demo_world_def)
qed

text \<open>
  Claim C9.  Take a run that reaches the append.  Whether the append succeeds or raises
  an \<open>Exception\<close>, the next reply is the confirmation that the result was saved: the
  calls differ only by the log line of the failure.
\<close>

theorem saved_message_either_way:
  assumes "text_extracted w file tg_file file_bytes name pages"
    and "analysis_replied w pages content d response"
    and "get_google_creds w = Inr creds"
    and "discovery_build w creds = None"
    and "sheet_row (with_file_name file d) = Inr row"
    and "case append_execute w (SPREADSHEET_ID w) row of None \<Rightarrow> True | Some e \<Rightarrow> is_Exception e"
  shows "\<exists>rest. snd (handle_document w file t)
       = t @ extraction_calls file tg_file file_bytes name
           @ [Invoke (prompt (str_join [10] pages)), Reply response True, Build creds,
              Append (SPREADSHEET_ID w) sheet_range row]
           @ (case append_execute w (SPREADSHEET_ID w) row of
                None \<Rightarrow> [] | Some e \<Rightarrow> [Print (log_prefix @ str_exn e)])
           @ Reply saved_msg False # rest"
proof (cases "reply_text w saved_msg False")
  case None
  show ?thesis
    using assms(6) None
    by (cases "os_unlink w name"; cases "append_execute w (SPREADSHEET_ID w) row")
       (simp_all add: handler_after_receiving [OF text_extracted_pdf [OF assms(1)]]
         try_body_replied [OF assms(1,2)] write_to_sheet_append [OF assms(3-5)] io_defs
         extraction_calls_def)
next
  case (Some e2)
  show ?thesis
    using assms(6) Some
    by (cases "os_unlink w name"; cases "append_execute w (SPREADSHEET_ID w) row";
        cases "is_Exception e2"; cases "reply_text w (error_prefix @ str_exn e2) False")
       (simp_all add: handler_after_receiving [OF text_extracted_pdf [OF assms(1)]]
         try_body_replied [OF assms(1,2)] write_to_sheet_append [OF assms(3-5)] io_defs
         extraction_calls_def)
qed

theorem saved_message_either_way_witness:
  "(\<exists>rest. snd (handle_document demo_world demo_document [])
      = extraction_calls demo_document (ascii ''documents/file_0.pdf'') [37, 80, 68, 70]
          (ascii ''/tmp/tmpa1b2c3.pdf'')
        @ [Invoke (prompt (ascii ''Hello'' @ [10] @ ascii ''World'')), Reply demo_response True,
           Build demo_credentials, Append (Some (ascii ''sheet'')) sheet_range demo_row]
        @ Reply saved_msg False # rest)
   \<and> (\<exists>rest. snd (handle_document append_failing_world demo_document [])
      = extraction_calls demo_document (ascii ''documents/file_0.pdf'') [37, 80, 68, 70]
          (ascii ''/tmp/tmpa1b2c3.pdf'')
        @ [Invoke (prompt (ascii ''Hello'' @ [10] @ ascii ''World'')), Reply demo_response True,
           Build demo_credentials, Append (Some (ascii ''sheet'')) sheet_range demo_row]
        @ [Print (log_prefix @ ascii ''The caller does not have permission'')]
        @ Reply saved_msg False # rest)"
proof -
  have d: "demo_world = demo_world\<lparr>append_execute := \<lambda>sheet_id row. None\<rparr>"
    by (simp add: demo_world_def)
  have x: "text_extracted (demo_world\<lparr>append_execute := a\<rparr>) demo_document
     (ascii ''documents/file_0.pdf'') [37, 80, 68, 70] (ascii ''/tmp/tmpa1b2c3.pdf'')
     [ascii ''Hello'', ascii ''World'']" for a
    by (simp add: demo_world_def demo_document_def run_defs)
  have b: "discovery_build (demo_world\<lparr>append_execute := a\<rparr>) demo_credentials = None" for a
    by (simp add: demo_world_def)
  have ok: "case append_execute (demo_world\<lparr>append_execute := \<lambda>sheet_id row. None\<rparr>)
      (SPREADSHEET_ID (demo_world\<lparr>append_execute := \<lambda>sheet_id row. None\<rparr>)) demo_row of
      None \<Rightarrow> True | Some e \<Rightarrow> is_Exception e"
    by simp
  have ko: "case append_execute append_failing_world (SPREADSHEET_ID append_failing_world)
      demo_row of None \<Rightarrow> True | Some e \<Rightarrow> is_Exception e"
    by (simp add: append_failing_world_def)
  have 1: "\<exists>rest. snd (handle_document demo_world demo_document [])
      = extraction_calls demo_document (ascii ''documents/file_0.pdf'') [37, 80, 68, 70]
          (ascii ''/tmp/tmpa1b2c3.pdf'')
        @ [Invoke (prompt (ascii ''Hello'' @ [10] @ ascii ''World'')), Reply demo_response True,
           Build demo_credentials, Append (Some (ascii ''sheet'')) sheet_range demo_row]
        @ Reply saved_msg False # rest"
    using saved_message_either_way [OF x demo_analysis_replied demo_get_google_creds b
        demo_sheet_row ok, of "[]"]
    by (simp add: d [symmetric]) (simp add: demo_world_def)
  have 2: "\<exists>rest. snd (handle_document append_failing_world demo_document [])
      = extraction_calls demo_document (ascii ''documents/file_0.pdf'') [37, 80, 68, 70]
          (ascii ''/tmp/tmpa1b2c3.pdf'')
        @ [Invoke (prompt (ascii ''Hello'' @ [10] @ ascii ''World'')), Reply demo_response True,
           Build demo_credentials, Append (Some (ascii ''sheet'')) sheet_range demo_row]
        @ [Print (log_prefix @ ascii ''The caller does not have permission'')]
        @ Reply saved_msg False # rest"
    using saved_message_either_way [OF x demo_analysis_replied demo_get_google_creds b
        demo_sheet_row ko [unfolded append_failing_world_def], of "[]"]
    by (simp add: append_failing_world_def) (simp add: demo_world_def)
  from 1 2 show ?thesis by simp
qed

section \<open>The temporary file\<close>

text \<open>Most of the handler only makes calls, and so keeps \<open>tmp_path\<close>.\<close>

lemma appends_call: "appends (call ev r)"
  unfolding appends_def call_def by (intro allI exI [of _ "[ev]"]) simp

lemma appends_call_unit: "appends (call_unit ev r)"
  unfolding call_unit_def by (rule appends_call)

lemma appends_reply: "appends (reply w text markdown)"
  unfolding reply_def by (rule appends_call_unit)

lemma appends_lift: "appends (lift r)"
  unfolding appends_def lift_def by (intro allI exI [of _ "[]"]) simp

lemma appends_bind:
  assumes "appends m" and "\<And>a. appends (f a)"
  shows "appends (bind_io m f)"
  unfolding appends_def
proof
  fix s
  obtain r s' where ms: "m s = (r, s')" by (cases "m s")
  obtain c1 where c1: "s' = s\<lparr>trace := trace s @ c1\<rparr>"
    using assms(1) ms unfolding appends_def by (metis snd_conv)
  show "\<exists>calls. snd (bind_io m f s) = s\<lparr>trace := trace s @ calls\<rparr>"
  proof (cases r)
    case (Inl e)
    then have "snd (bind_io m f s) = s'"
      by (simp add: bind_io_def ms)
    then show ?thesis using c1 by blast
  next
    case (Inr a)
    then have b: "bind_io m f s = f a s'"
      by (simp add: bind_io_def ms)
    obtain c2 where "snd (f a s') = s'\<lparr>trace := trace s' @ c2\<rparr>"
      using assms(2) unfolding appends_def by blast
    then have "snd (bind_io m f s) = s\<lparr>trace := trace s @ (c1 @ c2)\<rparr>"
      using b c1 by simp
    then show ?thesis by blast
  qed
qed

lemma appends_try_except:
  assumes "appends m" and "\<And>e. appends (h e)"
  shows "appends (try_except m h)"
  unfolding appends_def
proof
  fix s
  obtain r s' where ms: "m s = (r, s')" by (cases "m s")
  obtain c1 where c1: "s' = s\<lparr>trace := trace s @ c1\<rparr>"
    using assms(1) ms unfolding appends_def by (metis snd_conv)
  show "\<exists>calls. snd (try_except m h s) = s\<lparr>trace := trace s @ calls\<rparr>"
  proof (cases r)
    case (Inr a)
    then have "snd (try_except m h s) = s'"
      by (simp add: try_except_def ms)
    then show ?thesis using c1 by blast
  next
    case (Inl e)
    show ?thesis
    proof (cases "is_Exception e")
      case False
      with Inl have "snd (try_except m h s) = s'"
        by (simp add: try_except_def ms)
      then show ?thesis using c1 by blast
    next
      case True
      with Inl have b: "try_except m h s = h e s'"
        by (simp add: try_except_def ms)
      obtain c2 where "snd (h e s') = s'\<lparr>trace := trace s' @ c2\<rparr>"
        using assms(2) unfolding appends_def by blast
      then have "snd (try_except m h s) = s\<lparr>trace := trace s @ (c1 @ c2)\<rparr>"
        using b c1 by simp
      then show ?thesis by blast
    qed
  qed
qed

lemma appends_analyze_document: "appends (analyze_document w text)"
  unfolding analyze_document_def by (intro appends_bind appends_call appends_lift)

lemma appends_write_to_sheet: "appends (write_to_sheet w data sheet_id)"
  unfolding write_to_sheet_def
  by (intro appends_try_except appends_bind appends_call appends_call_unit appends_lift)

lemma appends_analyze_and_save: "appends (analyze_and_save w file name file_bytes)"
  unfolding analyze_and_save_def
  by (intro appends_bind appends_call appends_reply appends_lift appends_analyze_document
      appends_write_to_sheet)

text \<open>
  Claim C5.  Once the bytes of the document are written to the temporary file, the last
  call of the handler is the deletion of that file, whatever the later calls do: the
  close, the loader, the model, the parse, any reply, the spreadsheet, with an
  \<open>Exception\<close> or with an exception that \<open>except Exception\<close> does not catch.
\<close>

theorem temporary_file_is_deleted:
  assumes "bytes_written w file tg_file file_bytes name"
  shows "\<exists>calls. snd (handle_document w file t) = t @ calls @ [Unlink name]"
proof -
  let ?h = "\<lambda>e. reply w (error_prefix @ str_exn e) False"
  let ?s0 = "\<lparr>trace = t @ [Reply receiving_msg False], tmp_path = None\<rparr>"
  let ?r1 = "case tmp_close w name of None \<Rightarrow> Inr (name, file_bytes) | Some e \<Rightarrow> Inl e"
  let ?s1 = "\<lparr>trace = t @ [Reply receiving_msg False] @ [GetFile (file_id file), Download tg_file,
                 TmpCreate, TmpWrite name file_bytes, TmpClose name],
              tmp_path = Some name\<rparr>"
  let ?k = "\<lambda>(name, file_bytes). analyze_and_save w file name file_bytes"
  have pdf: "mime_type file = Some pdf_mime" and r: "reply_text w receiving_msg False = None"
    using assms by (simp_all add: bytes_written_def)
  have save: "save_to_temp w file ?s0 = (?r1, ?s1)"
    using save_to_temp_written [OF assms, of "t @ [Reply receiving_msg False]"] by simp
  have "try_body w file ?s0 = bind_io (lift ?r1) ?k ?s1"
    by (simp add: try_body_def bind_io_def save lift_def)
  then have body: "try_except (try_body w file) ?h ?s0 = try_except (bind_io (lift ?r1) ?k) ?h ?s1"
    by (simp add: try_except_def)
  have "appends (try_except (bind_io (lift ?r1) ?k) ?h)"
    by (intro appends_try_except appends_bind appends_lift appends_reply)
       (simp add: split_def appends_analyze_and_save)
  then obtain c where c: "snd (try_except (bind_io (lift ?r1) ?k) ?h ?s1)
      = ?s1\<lparr>trace := trace ?s1 @ c\<rparr>"
    unfolding appends_def by blast
  obtain r2 s2 where rs: "try_except (try_body w file) ?h ?s0 = (r2, s2)"
    by (cases "try_except (try_body w file) ?h ?s0")
  have s2: "s2 = ?s1\<lparr>trace := trace ?s1 @ c\<rparr>"
    using c rs body by simp
  have "snd (handle_document w file t)
      = t @ ([Reply receiving_msg False, GetFile (file_id file), Download tg_file,
                 TmpCreate, TmpWrite name file_bytes, TmpClose name] @ c) @ [Unlink name]"
    by (cases "os_unlink w name")
       (simp_all add: handler_after_receiving [OF pdf r] try_finally_def rs s2 cleanup_def
         call_unit_def call_def raise_opt_def)
  then show ?thesis by blast
qed

theorem temporary_file_is_deleted_witness:
  "bytes_written unreadable_pdf_world demo_document (ascii ''documents/file_0.pdf'')
     [37, 80, 68, 70] (ascii ''/tmp/tmpa1b2c3.pdf'')
   \<and> (\<exists>calls. snd (handle_document unreadable_pdf_world demo_document [])
         = calls @ [Unlink (ascii ''/tmp/tmpa1b2c3.pdf'')])
   \<and> snd (handle_document unreadable_pdf_world demo_document [])
     = [Reply receiving_msg False, GetFile (ascii ''BQACAgIAAxkBAAIB''),
        Download (ascii ''documents/file_0.pdf''), TmpCreate,
        TmpWrite (ascii ''/tmp/tmpa1b2c3.pdf'') [37, 80, 68, 70],
        TmpClose (ascii ''/tmp/tmpa1b2c3.pdf''), Load (ascii ''/tmp/tmpa1b2c3.pdf''),
        Reply (error_prefix @ ascii ''EOF marker not found'') False,
        Unlink (ascii ''/tmp/tmpa1b2c3.pdf'')]"
proof -
  have b: "bytes_written unreadable_pdf_world demo_document (ascii ''documents/file_0.pdf'')
     [37, 80, 68, 70] (ascii ''/tmp/tmpa1b2c3.pdf'')"
    by (simp add: unreadable_pdf_world_def demo_world_def demo_document_def bytes_written_def)
  have t: "snd (handle_document unreadable_pdf_world demo_document [])
     = [Reply receiving_msg False, GetFile (ascii ''BQACAgIAAxkBAAIB''),
        Download (ascii ''documents/file_0.pdf''), TmpCreate,
        TmpWrite (ascii ''/tmp/tmpa1b2c3.pdf'') [37, 80, 68, 70],
        TmpClose (ascii ''/tmp/tmpa1b2c3.pdf''), Load (ascii ''/tmp/tmpa1b2c3.pdf''),
        Reply (error_prefix @ ascii ''EOF marker not found'') False,
        Unlink (ascii ''/tmp/tmpa1b2c3.pdf'')]"
    by (simp add: handle_document_def try_body_def save_to_temp_def analyze_and_save_def io_defs
        unreadable_pdf_world_def demo_world_def demo_document_def)
  show ?thesis
    using temporary_file_is_deleted [OF b, of "[]"] b t by simp
qed

section \<open>A missing credential\<close>

lemma get_google_creds_missing:
  assumes "GOOGLE_CREDENTIALS_B64 w = None \<or> GOOGLE_CREDENTIALS_B64 w = Some []"
  shows "get_google_creds w = Inl (Raised EnvironmentError creds_missing_msg)"
  using assms by (auto simp add: get_google_creds_def)

text \<open>
  Against claim C4 as stated: with \<open>GOOGLE_CREDENTIALS_B64\<close> unset, start-up succeeds,
  and the request of the concrete run raises the error in \<open>get_google_creds\<close> and
  handles it in \<open>write_to_sheet\<close>, whose log line is among the calls of the request.
\<close>

theorem missing_credential_counterexample:
  "GOOGLE_CREDENTIALS_B64 no_credentials_world = None
   \<and> main no_credentials_world = Inr ()
   \<and> get_google_creds no_credentials_world = Inl (Raised EnvironmentError creds_missing_msg)
   \<and> handle_document no_credentials_world demo_document []
     = (Inr (),
        [Reply receiving_msg False, GetFile (ascii ''BQACAgIAAxkBAAIB''),
         Download (ascii ''documents/file_0.pdf''), TmpCreate,
         TmpWrite (ascii ''/tmp/tmpa1b2c3.pdf'') [37, 80, 68, 70],
         TmpClose (ascii ''/tmp/tmpa1b2c3.pdf''), Load (ascii ''/tmp/tmpa1b2c3.pdf''),
         Reply analysing_msg False, Invoke (prompt (ascii ''Hello'' @ [10] @ ascii ''World'')),
         Reply demo_response True, Print (log_prefix @ creds_missing_msg),
         Reply saved_msg False, Unlink (ascii ''/tmp/tmpa1b2c3.pdf'')])"
proof -
  let ?w = "no_credentials_world"
  have n: "GOOGLE_CREDENTIALS_B64 ?w = None"
    by (simp add: no_credentials_world_def)
  have m: "main ?w = Inr ()"
    by (simp add: main_def no_credentials_world_def demo_world_def bind_exn_def raise_opt_def)
  have g: "get_google_creds ?w = Inl (Raised EnvironmentError creds_missing_msg)"
    using n by (simp add: get_google_creds_def)
  have x: "text_extracted ?w demo_document (ascii ''documents/file_0.pdf'')
     [37, 80, 68, 70] (ascii ''/tmp/tmpa1b2c3.pdf'') [ascii ''Hello'', ascii ''World'']"
    by (simp add: no_credentials_world_def demo_world_def demo_document_def run_defs)
  have rt: "response_text ?w (JObj demo_record) = Inr demo_response"
    by (simp add: response_text_def py_get_def bind_exn_def format_value_def demo_defs const_defs
      ascii_def)
  have r: "analysis_replied ?w [ascii ''Hello'', ascii ''World''] demo_content demo_record
     demo_response"
    unfolding analysis_replied_def demo_cleaned rt
    by (simp add: no_credentials_world_def demo_world_def demo_loads_def)
  have su: "reply_text ?w saved_msg False = None"
      "os_unlink ?w (ascii ''/tmp/tmpa1b2c3.pdf'') = None"
    by (simp_all add: no_credentials_world_def demo_world_def)
  have f: "file_id demo_document = ascii ''BQACAgIAAxkBAAIB''"
    by (simp add: demo_document_def)
  have h: "handle_document ?w demo_document []
     = (Inr (),
        [Reply receiving_msg False, GetFile (ascii ''BQACAgIAAxkBAAIB''),
         Download (ascii ''documents/file_0.pdf''), TmpCreate,
         TmpWrite (ascii ''/tmp/tmpa1b2c3.pdf'') [37, 80, 68, 70],
         TmpClose (ascii ''/tmp/tmpa1b2c3.pdf''), Load (ascii ''/tmp/tmpa1b2c3.pdf''),
         Reply analysing_msg False, Invoke (prompt (ascii ''Hello'' @ [10] @ ascii ''World'')),
         Reply demo_response True, Print (log_prefix @ creds_missing_msg),
         Reply saved_msg False, Unlink (ascii ''/tmp/tmpa1b2c3.pdf'')])"
    using su f
    by (simp add: handler_after_receiving [OF text_extracted_pdf [OF x]]
        try_body_replied [OF x r] write_to_sheet_def g io_defs extraction_calls_def)
  from n m g h show ?thesis by simp
qed

text \<open>
  Claim C4, amended.  Start-up does not read \<open>GOOGLE_CREDENTIALS_B64\<close>.  When the
  variable is unset or empty, \<open>get_google_creds\<close> raises \<open>EnvironmentError\<close> each time
  \<open>write_to_sheet\<close> is called, and \<open>write_to_sheet\<close> catches it: it logs the message,
  attempts no append and returns normally.
\<close>

theorem missing_credential_is_logged_per_request:
  assumes "GOOGLE_CREDENTIALS_B64 w = None \<or> GOOGLE_CREDENTIALS_B64 w = Some []"
  shows "main w = main (w\<lparr>GOOGLE_CREDENTIALS_B64 := c\<rparr>)
       \<and> get_google_creds w = Inl (Raised EnvironmentError creds_missing_msg)
       \<and> write_to_sheet w data sheet_id s
         = (Inr (), s\<lparr>trace := trace s @ [Print (log_prefix @ creds_missing_msg)]\<rparr>)"
  using get_google_creds_missing [OF assms]
  by (simp add: main_def write_to_sheet_def io_defs)

theorem missing_credential_is_logged_per_request_witness:
  "GOOGLE_CREDENTIALS_B64 no_credentials_world = None
   \<and> main no_credentials_world = main demo_world
   \<and> main no_credentials_world = Inr ()
   \<and> write_to_sheet no_credentials_world (with_file_name demo_document demo_record)
       (Some (ascii ''sheet'')) demo_frame
     = (Inr (), \<lparr>trace = [Print (log_prefix @ creds_missing_msg)], tmp_path = None\<rparr>)"
proof -
  have n: "GOOGLE_CREDENTIALS_B64 no_credentials_world = None"
    by (simp add: no_credentials_world_def)
  have d: "no_credentials_world\<lparr>GOOGLE_CREDENTIALS_B64 :=
      Some (ascii ''eyJ0eXBlIjogInNlcnZpY2VfYWNjb3VudCJ9'')\<rparr> = demo_world"
    by (simp add: no_credentials_world_def demo_world_def)
  have m: "main demo_world = Inr ()"
    by (simp add: main_def demo_world_def bind_exn_def raise_opt_def)
  show ?thesis
    using missing_credential_is_logged_per_request [of no_credentials_world
        "Some (ascii ''eyJ0eXBlIjogInNlcnZpY2VfYWNjb3VudCJ9'')"
        "with_file_name demo_document demo_record" "Some (ascii ''sheet'')" demo_frame] n d m
    by (simp add: demo_frame_def)
qed

end
